theory Spec2Isabelle
  imports Main "HOL-Library.Sublist"
begin

section \<open>JavaScript values, errors and the collaborators of a dialect\<close>

text \<open>
  The generators are pure string builders. A thrown exception is the \<open>Inl\<close> branch of
  the result: \<open>Error\<close> is a plain JavaScript \<^verbatim>\<open>Error\<close> with its message, \<open>TypeError\<close> a
  \<^verbatim>\<open>TypeError\<close> with its message, \<open>AssertionError\<close> what \<^verbatim>\<open>assert\<close> of node:assert
  throws. \<open>InvalidOptions\<close> is the error of the option validation helper and carries the
  operation, the dialect and the rejected keys.
\<close>

datatype error =
    Error string
  | TypeError string
  | AssertionError
  | InvalidOptions string string "string list"

text \<open>The values handed to \<^verbatim>\<open>escape\<close>: strings, numbers and arrays.\<close>

datatype js_value = JString string | JNumber int | JArray "js_value list"

text \<open>
  A segment of a JSON path is \<^verbatim>\<open>number | string\<close>. Numeric segments are array indices;
  they are integers, for which \<^verbatim>\<open>String(n)\<close> prints the decimal digits.
\<close>

datatype path_segment = SegNumber int | SegString string

fun nat_to_string :: "nat \<Rightarrow> string" where
  "nat_to_string n =
     (if n < 10 then [''0123456789'' ! n]
      else nat_to_string (n div 10) @ [''0123456789'' ! (n mod 10)])"

declare nat_to_string.simps [simp del]

definition number_to_string :: "int \<Rightarrow> string" where
  "number_to_string i =
     (if i < 0 then ''-'' @ nat_to_string (nat (- i)) else nat_to_string (nat i))"

text \<open>\<^verbatim>\<open>String(value)\<close> on a path segment, and the segment as the value it is.\<close>

fun String_of :: "path_segment \<Rightarrow> string" where
  "String_of (SegNumber n) = number_to_string n"
| "String_of (SegString s) = s"

fun segment_value :: "path_segment \<Rightarrow> js_value" where
  "segment_value (SegNumber n) = JNumber n"
| "segment_value (SegString s) = JString s"

text \<open>\<^verbatim>\<open>Array.prototype.join\<close> on an array of strings.\<close>

fun array_join :: "string \<Rightarrow> string list \<Rightarrow> string" where
  "array_join sep [] = []"
| "array_join sep [x] = x"
| "array_join sep (x # y # ys) = x @ sep @ array_join sep (y # ys)"

text \<open>
  A resolved table reference, and the \<^verbatim>\<open>TableNameOrModel\<close> argument it is resolved from.
\<close>

record table_details =
  tableName :: string
  schema :: string

datatype table_ref =
    TableName string
  | TableNameWithSchema table_details
  | ModelRef string

text \<open>
  Data type instances. Every instance carries what its \<^verbatim>\<open>toSql()\<close> returns; an \<open>ENUM\<close>
  also carries \<^verbatim>\<open>options.values\<close> and an \<open>ARRAY\<close> its element type \<^verbatim>\<open>options.type\<close>.
  Column definitions reach the generator normalised to the dialect's data types, where
  the dialect's \<^verbatim>\<open>ENUM\<close> class and \<^verbatim>\<open>DataTypes.ENUM\<close> have the same instances, so one
  test \<open>is_ENUM\<close> stands for both \<^verbatim>\<open>instanceof\<close> tests.
\<close>

datatype data_type =
    ENUM string "string list"
  | ARRAY string data_type
  | OtherType string

fun toSql :: "data_type \<Rightarrow> string" where
  "toSql (ENUM n vs) = n"
| "toSql (ARRAY n t) = n"
| "toSql (OtherType n) = n"

fun is_ENUM :: "data_type \<Rightarrow> bool" where
  "is_ENUM (ENUM n vs) = True"
| "is_ENUM t = False"

fun is_ARRAY_of_ENUM :: "data_type \<Rightarrow> bool" where
  "is_ARRAY_of_ENUM (ARRAY n t) = is_ENUM t"
| "is_ARRAY_of_ENUM t = False"

datatype data_type_or_name = DataType data_type | TypeName string

text \<open>
  A column definition as the Postgres generator reads it. \<open>comment\<close> distinguishes a
  missing key (\<open>None\<close>), a key holding \<^verbatim>\<open>null\<close> or \<^verbatim>\<open>undefined\<close> (\<open>Some None\<close>) and a key
  holding a string. The attributes that only the inherited generator reads are not
  listed.
\<close>

record column_def =
  dataType :: "data_type option"
  comment :: "string option option"
  autoIncrement :: "bool option"

text \<open>
  The collaborators a generator is built on (escaping, quoting, table resolution, name
  generation, the fragment joiner, the JSON path builder, attribute normalisation and
  the inherited \<^verbatim>\<open>changeColumnsQuery\<close>) are outside the generator classes and are taken
  as parameters.
\<close>

record env =
  dialect_name :: string
  escape :: "js_value \<Rightarrow> string"
  quoteIdentifier :: "string \<Rightarrow> string"
  quoteTable :: "table_ref \<Rightarrow> string"
  extractTableDetails :: "table_ref \<Rightarrow> table_details"
  generateIndexName :: "table_details \<Rightarrow> string list \<Rightarrow> string"
  generateEnumName :: "string \<Rightarrow> string \<Rightarrow> bool \<Rightarrow> string"
  generateSequenceName :: "string \<Rightarrow> string \<Rightarrow> string"
  joinSQLFragments :: "string list \<Rightarrow> string"
  buildJsonPath :: "path_segment list \<Rightarrow> string"
  normalizeChangeColumnAttribute :: "column_def \<Rightarrow> column_def"
  super_changeColumnsQuery :: "table_ref \<Rightarrow> (string \<times> column_def) list \<Rightarrow> error + string"

text \<open>
  An options object is read by key: \<^verbatim>\<open>options?.key\<close> is \<open>get_option options key\<close>, with
  \<open>None\<close> for \<^verbatim>\<open>undefined\<close>. A value is truthy when it is \<^verbatim>\<open>true\<close>.
\<close>

type_synonym options = "(string \<times> bool) list"

definition get_option :: "options option \<Rightarrow> string \<Rightarrow> bool option" where
  "get_option opts k = (case opts of None \<Rightarrow> None | Some obj \<Rightarrow> map_of obj k)"

definition truthy :: "bool option \<Rightarrow> bool" where
  "truthy v = (v = Some True)"

datatype index_name_or_attributes = IndexName string | Attributes "string list"

section \<open>The Postgres query generator\<close>

definition postgres_removeIndexQuery ::
  "env \<Rightarrow> table_ref \<Rightarrow> index_name_or_attributes \<Rightarrow> options option \<Rightarrow> error + string" where
  "postgres_removeIndexQuery env tableNameOrModel indexNameOrAttributes opts =
     (if truthy (get_option opts ''cascade'') \<and> truthy (get_option opts ''concurrently'')
      then Inl (Error (''Cannot specify both concurrently and cascade options in removeIndexQuery for ''
                       @ dialect_name env @ '' dialect''))
      else
        let table = extractTableDetails env tableNameOrModel;
            indexName = (case indexNameOrAttributes of
                           Attributes attrs \<Rightarrow> generateIndexName env table attrs
                         | IndexName n \<Rightarrow> n)
        in Inr (joinSQLFragments env
             [''DROP INDEX'',
              if truthy (get_option opts ''concurrently'') then ''CONCURRENTLY'' else '''',
              if truthy (get_option opts ''ifExists'') then ''IF EXISTS'' else '''',
              quoteIdentifier env (schema table) @ ''.'' @ quoteIdentifier env indexName,
              if truthy (get_option opts ''cascade'') then ''CASCADE'' else '''']))"

definition postgres_jsonPathExtractionQuery ::
  "env \<Rightarrow> string \<Rightarrow> path_segment list \<Rightarrow> bool \<Rightarrow> string" where
  "postgres_jsonPathExtractionQuery env sqlExpression path unquote =
     (let operator = (if length path = 1
                      then (if unquote then ''->>'' else ''->'')
                      else (if unquote then ''#>>'' else ''#>''));
          pathSql = (case path of
                       [seg] \<Rightarrow> escape env (segment_value seg)
                     | _ \<Rightarrow> escape env (JArray (map (\<lambda>v. JString (String_of v)) path)))
      in sqlExpression @ operator @ pathSql)"

definition versionQuery :: string where
  "versionQuery = ''SHOW SERVER_VERSION''"

definition dropEnumQuery :: "env \<Rightarrow> string \<Rightarrow> data_type_or_name \<Rightarrow> string" where
  "dropEnumQuery env schema_name dataTypeOrName =
     (let name = (case dataTypeOrName of TypeName n \<Rightarrow> n | DataType t \<Rightarrow> toSql t)
      in ''DROP TYPE IF EXISTS '' @ quoteIdentifier env schema_name @ ''.''
         @ quoteIdentifier env name @ ''; '')"

text \<open>\<^verbatim>\<open>CreateEnumQueryOptions\<close>; \<open>None\<close> is a key that is missing or \<^verbatim>\<open>undefined\<close>.\<close>

record create_enum_options =
  force :: "bool option"

definition createEnumQuery ::
  "env \<Rightarrow> table_ref \<Rightarrow> data_type \<Rightarrow> create_enum_options option \<Rightarrow> error + string" where
  "createEnumQuery env tableOrModel dt opts =
     (case dt of
        ENUM enumName vals \<Rightarrow>
          (let table = extractTableDetails env tableOrModel;
               enum_values = ''ENUM('' @ array_join '', '' (map (\<lambda>v. escape env (JString v)) vals) @ '')'';
               sql = ''DO '' @ escape env (JString (''BEGIN CREATE TYPE ''
                       @ quoteIdentifier env (schema table) @ ''.'' @ quoteIdentifier env enumName
                       @ ''  AS '' @ enum_values
                       @ ''; EXCEPTION WHEN duplicate_object THEN null; END'')) @ '';''
           in Inr (if (case opts of None \<Rightarrow> None | Some obj \<Rightarrow> force obj) = Some True
                   then dropEnumQuery env (schema table) (TypeName enumName) @ sql
                   else sql))
      | _ \<Rightarrow> Inl (TypeError ''createEnumQuery expects an instance of the ENUM DataType''))"

text \<open>
  \<^verbatim>\<open>AddValueToEnumQueryOptions\<close>: \<open>None\<close> is a key that is missing or \<^verbatim>\<open>undefined\<close>. The
  tests \<^verbatim>\<open>if (options?.before)\<close> and \<^verbatim>\<open>if (options?.after)\<close> are truthiness tests on an
  optional string: the empty string fails them, as \<^verbatim>\<open>undefined\<close> does.
\<close>

record add_value_options =
  before :: "string option"
  after :: "string option"

definition truthy_string :: "string option \<Rightarrow> bool" where
  "truthy_string v = (case v of None \<Rightarrow> False | Some s \<Rightarrow> s \<noteq> [])"

definition addValueToEnumQuery ::
  "env \<Rightarrow> string \<Rightarrow> data_type_or_name \<Rightarrow> string \<Rightarrow> add_value_options option \<Rightarrow> string" where
  "addValueToEnumQuery env schema_name dataTypeOrName val opts =
     (let enumName = (case dataTypeOrName of TypeName n \<Rightarrow> n | DataType t \<Rightarrow> toSql t);
          sql = ''ALTER TYPE  '' @ quoteIdentifier env schema_name @ ''.''
                @ quoteIdentifier env enumName @ '' ADD VALUE IF NOT EXISTS ''
                @ escape env (JString val);
          opt_before = (case opts of None \<Rightarrow> None | Some obj \<Rightarrow> before obj);
          opt_after = (case opts of None \<Rightarrow> None | Some obj \<Rightarrow> after obj)
      in if truthy_string opt_before then sql @ '' BEFORE '' @ escape env (JString (the opt_before))
         else if truthy_string opt_after then sql @ '' AFTER '' @ escape env (JString (the opt_after))
         else sql)"

text \<open>
  The body of the loop of \<^verbatim>\<open>changeColumnsQuery\<close> over the entries of the normalised
  definitions, on the array \<open>out\<close>: \<^verbatim>\<open>push\<close> appends, \<^verbatim>\<open>unshift\<close> prepends. The call of
  \<^verbatim>\<open>createEnumQuery\<close> receives \<^verbatim>\<open>columnDef.type\<close> itself and may throw.
\<close>

definition column_statements ::
  "env \<Rightarrow> table_details \<Rightarrow> string list \<Rightarrow> string \<times> column_def \<Rightarrow> error + string list" where
  "column_statements env table out entry =
     (case entry of (columnName, columnDef) \<Rightarrow>
        let out1 = (case comment columnDef of
                      None \<Rightarrow> out
                    | Some None \<Rightarrow>
                        out @ [''COMMENT ON COLUMN '' @ quoteTable env (TableNameWithSchema table) @ ''.''
                               @ quoteIdentifier env columnName @ '' IS NULL;'']
                    | Some (Some c) \<Rightarrow>
                        out @ [''COMMENT ON COLUMN '' @ quoteTable env (TableNameWithSchema table) @ ''.''
                               @ quoteIdentifier env columnName @ '' IS '' @ escape env (JString c) @ '';'']);
            out2 = (if truthy (autoIncrement columnDef)
                    then (''CREATE SEQUENCE IF NOT EXISTS ''
                          @ quoteIdentifier env (generateSequenceName env (tableName table) columnName)
                          @ '' OWNED BY '' @ quoteTable env (TableNameWithSchema table) @ ''.''
                          @ quoteIdentifier env columnName @ '';'') # out1
                    else out1)
        in (case dataType columnDef of
              None \<Rightarrow> Inr out2
            | Some t \<Rightarrow>
                if is_ENUM t \<or> is_ARRAY_of_ENUM t then
                  (let existingEnumName = generateEnumName env (tableName table) columnName False;
                       tmpEnumName = generateEnumName env (tableName table) columnName True
                   in (case createEnumQuery env (TableNameWithSchema table) t None of
                         Inl e \<Rightarrow> Inl e
                       | Inr create \<Rightarrow>
                           Inr (create # out2
                                @ [dropEnumQuery env (schema table) (TypeName existingEnumName),
                                   ''ALTER TYPE '' @ quoteIdentifier env (schema table) @ ''.''
                                   @ quoteIdentifier env tmpEnumName @ '' RENAME TO ''
                                   @ quoteIdentifier env existingEnumName @ '';''])))
                else Inr out2))"

fun columns_loop ::
  "env \<Rightarrow> table_details \<Rightarrow> (string \<times> column_def) list \<Rightarrow> string list \<Rightarrow> error + string list" where
  "columns_loop env table [] out = Inr out"
| "columns_loop env table (entry # entries) out =
     (case column_statements env table out entry of
        Inl e \<Rightarrow> Inl e
      | Inr out' \<Rightarrow> columns_loop env table entries out')"

definition changeColumnsQuery ::
  "env \<Rightarrow> table_ref \<Rightarrow> (string \<times> column_def) list \<Rightarrow> error + string" where
  "changeColumnsQuery env tableOrModel columnDefinitions =
     (case super_changeColumnsQuery env tableOrModel columnDefinitions of
        Inl e \<Rightarrow> Inl e
      | Inr sql \<Rightarrow>
          let normalizedChangeColumnDefinitions =
                map (\<lambda>(columnName, attribute). (columnName, normalizeChangeColumnAttribute env attribute))
                    columnDefinitions;
              table = extractTableDetails env tableOrModel;
              out = (if sql \<noteq> [] then [sql] else [])
          in (case columns_loop env table normalizedChangeColumnDefinitions out of
                Inl e \<Rightarrow> Inl e
              | Inr out' \<Rightarrow> Inr (array_join '' '' out')))"

text \<open>
  What one column contributes to the array, read off the loop body: the statements it
  puts in front (the enum creation, then the sequence creation behind it) and the
  statements it appends (the comment, then the drop and the rename of the enum).
\<close>

definition statements_before :: "env \<Rightarrow> table_details \<Rightarrow> string \<times> column_def \<Rightarrow> string list" where
  "statements_before env table entry =
     (case entry of (columnName, columnDef) \<Rightarrow>
        (case dataType columnDef of
           Some (ENUM n vs) \<Rightarrow>
             (case createEnumQuery env (TableNameWithSchema table) (ENUM n vs) None of
                Inr create \<Rightarrow> [create]
              | Inl e \<Rightarrow> [])
         | _ \<Rightarrow> [])
        @ (if truthy (autoIncrement columnDef)
           then [''CREATE SEQUENCE IF NOT EXISTS ''
                 @ quoteIdentifier env (generateSequenceName env (tableName table) columnName)
                 @ '' OWNED BY '' @ quoteTable env (TableNameWithSchema table) @ ''.''
                 @ quoteIdentifier env columnName @ '';'']
           else []))"

definition statements_after :: "env \<Rightarrow> table_details \<Rightarrow> string \<times> column_def \<Rightarrow> string list" where
  "statements_after env table entry =
     (case entry of (columnName, columnDef) \<Rightarrow>
        (case comment columnDef of
           None \<Rightarrow> []
         | Some None \<Rightarrow>
             [''COMMENT ON COLUMN '' @ quoteTable env (TableNameWithSchema table) @ ''.''
              @ quoteIdentifier env columnName @ '' IS NULL;'']
         | Some (Some c) \<Rightarrow>
             [''COMMENT ON COLUMN '' @ quoteTable env (TableNameWithSchema table) @ ''.''
              @ quoteIdentifier env columnName @ '' IS '' @ escape env (JString c) @ '';''])
        @ (case dataType columnDef of
             Some (ENUM n vs) \<Rightarrow>
               [dropEnumQuery env (schema table)
                  (TypeName (generateEnumName env (tableName table) columnName False)),
                ''ALTER TYPE '' @ quoteIdentifier env (schema table) @ ''.''
                @ quoteIdentifier env (generateEnumName env (tableName table) columnName True)
                @ '' RENAME TO ''
                @ quoteIdentifier env (generateEnumName env (tableName table) columnName False) @ '';'']
           | _ \<Rightarrow> []))"

text \<open>The column definitions on which the call of \<^verbatim>\<open>createEnumQuery\<close> in the loop cannot throw.\<close>

definition no_array_of_enum :: "env \<Rightarrow> (string \<times> column_def) list \<Rightarrow> bool" where
  "no_array_of_enum env columnDefinitions =
     list_all (\<lambda>entry. case dataType (normalizeChangeColumnAttribute env (snd entry)) of
                          None \<Rightarrow> True
                        | Some t \<Rightarrow> \<not> is_ARRAY_of_ENUM t)
              columnDefinitions"

section \<open>The MariaDB query generator\<close>

definition REMOVE_INDEX_QUERY_SUPPORTED_OPTIONS :: "string list" where
  "REMOVE_INDEX_QUERY_SUPPORTED_OPTIONS = [''ifExists'']"

text \<open>
  Modelled from the spec: the constant \<^verbatim>\<open>REMOVE_INDEX_QUERY_SUPPORTABLE_OPTIONS\<close> of the
  abstract generator is not among the sources. The spec gives the options of
  \<^verbatim>\<open>removeIndexQuery\<close> as \<^verbatim>\<open>{ifExists, cascade, concurrently}\<close>.
\<close>

definition REMOVE_INDEX_QUERY_SUPPORTABLE_OPTIONS :: "string list" where
  "REMOVE_INDEX_QUERY_SUPPORTABLE_OPTIONS = [''ifExists'', ''cascade'', ''concurrently'']"

text \<open>
  Modelled from the spec: the helper \<^verbatim>\<open>rejectInvalidOptions\<close> of \<^verbatim>\<open>utils/check\<close> is not
  among the sources. The spec has it take the operation name, the dialect tag, the full
  supported set, the requested set and the provided options, and reject at call time
  any option key not in the operation's declared supported-option set for the active
  dialect, reporting which keys are invalid.
\<close>

definition rejectInvalidOptions ::
  "string \<Rightarrow> string \<Rightarrow> string list \<Rightarrow> string list \<Rightarrow> options \<Rightarrow> error + unit" where
  "rejectInvalidOptions methodName dialectName allSupportableOptions supportedOptions receivedOptions =
     (let unsupportedOptions = filter (\<lambda>k. k \<notin> set supportedOptions) (map fst receivedOptions)
      in if unsupportedOptions \<noteq> []
         then Inl (InvalidOptions methodName dialectName unsupportedOptions)
         else Inr ())"

definition mariadb_removeIndexQuery ::
  "env \<Rightarrow> table_ref \<Rightarrow> index_name_or_attributes \<Rightarrow> options option \<Rightarrow> error + string" where
  "mariadb_removeIndexQuery env tableNameOrModel indexNameOrAttributes opts =
     (case (case opts of
              None \<Rightarrow> Inr ()
            | Some obj \<Rightarrow>
                rejectInvalidOptions ''removeIndexQuery'' (dialect_name env)
                  REMOVE_INDEX_QUERY_SUPPORTABLE_OPTIONS REMOVE_INDEX_QUERY_SUPPORTED_OPTIONS obj) of
        Inl e \<Rightarrow> Inl e
      | Inr u \<Rightarrow>
          let indexName = (case indexNameOrAttributes of
                             Attributes attrs \<Rightarrow>
                               generateIndexName env (extractTableDetails env tableNameOrModel) attrs
                           | IndexName n \<Rightarrow> n)
          in Inr (joinSQLFragments env
               [''DROP INDEX'',
                if truthy (get_option opts ''ifExists'') then ''IF EXISTS'' else '''',
                quoteIdentifier env indexName,
                ''ON'',
                quoteTable env tableNameOrModel]))"

definition mariadb_jsonPathExtractionQuery ::
  "env \<Rightarrow> string \<Rightarrow> path_segment list \<Rightarrow> bool \<Rightarrow> string" where
  "mariadb_jsonPathExtractionQuery env sqlExpression path unquote =
     (let extractQuery = ''json_extract('' @ sqlExpression @ '','' @ escape env (JString (buildJsonPath env path)) @ '')''
      in if unquote then ''json_unquote('' @ extractQuery @ '')''
         else ''json_compact('' @ extractQuery @ '')'')"

section \<open>The query interface\<close>

text \<open>
  \<^verbatim>\<open>fetchDatabaseVersionRaw\<close> awaits \<^verbatim>\<open>queryRaw\<close> on the version query with the caller's
  options overridden by \<^verbatim>\<open>type: SELECT\<close> and \<^verbatim>\<open>plain: true\<close>. The executor is a parameter;
  it resolves to a row or to \<^verbatim>\<open>null\<close> (\<open>None\<close>), or rejects (\<open>Inl\<close>).
\<close>

datatype query_type = SELECT | OtherQueryType string

record query_options =
  query_type :: "query_type option"
  plain :: "bool option"

text \<open>The object \<^verbatim>\<open>{ ...options, type: QueryTypes.SELECT, plain: true }\<close>.\<close>

definition select_plain_options :: "query_options option \<Rightarrow> query_options" where
  "select_plain_options opts =
     (case opts of
        None \<Rightarrow> \<lparr>query_type = None, plain = None\<rparr>
      | Some obj \<Rightarrow> obj)\<lparr>query_type := Some SELECT, plain := Some True\<rparr>"

definition fetchDatabaseVersionRaw ::
  "(string \<Rightarrow> query_options \<Rightarrow> error + 'row option) \<Rightarrow> string \<Rightarrow> query_options option \<Rightarrow> error + 'row" where
  "fetchDatabaseVersionRaw queryRaw version_query opts =
     (case queryRaw version_query (select_plain_options opts) of
        Inl e \<Rightarrow> Inl e
      | Inr None \<Rightarrow> Inl AssertionError
      | Inr (Some out) \<Rightarrow> Inr out)"

text \<open>
  An executor over a database that answers every statement with the rows \<open>rows\<close>: a
  plain query resolves to the first row, and to \<^verbatim>\<open>null\<close> when there is none.
\<close>

definition first_row_executor ::
  "'row list \<Rightarrow> string \<Rightarrow> query_options \<Rightarrow> error + 'row option" where
  "first_row_executor rows sql opts = Inr (case rows of [] \<Rightarrow> None | r # rs \<Rightarrow> Some r)"

section \<open>A small dialect for concrete runs\<close>

text \<open>
  An instance of the collaborators, to run the generators on concrete inputs: literals
  in single quotes with embedded quotes doubled, identifiers in double quotes, the
  schema \<open>public\<close> where none is given, fragments joined by one space with the empty
  ones dropped, and an inherited \<^verbatim>\<open>changeColumnsQuery\<close> that returns one
  \<^verbatim>\<open>ALTER TABLE\<close> statement.
\<close>

fun example_escape :: "js_value \<Rightarrow> string" where
  "example_escape (JString s) =
     [CHR 0x27] @ concat (map (\<lambda>c. if c = CHR 0x27 then [c, c] else [c]) s) @ [CHR 0x27]"
| "example_escape (JNumber n) = number_to_string n"
| "example_escape (JArray vs) = ''ARRAY['' @ array_join '','' (map example_escape vs) @ '']''"

definition example_quoteIdentifier :: "string \<Rightarrow> string" where
  "example_quoteIdentifier s = [CHR 0x22] @ s @ [CHR 0x22]"

fun example_extractTableDetails :: "table_ref \<Rightarrow> table_details" where
  "example_extractTableDetails (TableName n) = \<lparr>tableName = n, schema = ''public''\<rparr>"
| "example_extractTableDetails (TableNameWithSchema t) = t"
| "example_extractTableDetails (ModelRef m) = \<lparr>tableName = m, schema = ''public''\<rparr>"

definition example_quoteTable :: "table_ref \<Rightarrow> string" where
  "example_quoteTable r =
     example_quoteIdentifier (schema (example_extractTableDetails r)) @ ''.''
     @ example_quoteIdentifier (tableName (example_extractTableDetails r))"

fun example_path_token :: "path_segment \<Rightarrow> string" where
  "example_path_token (SegNumber n) = ''['' @ number_to_string n @ '']''"
| "example_path_token (SegString s) = ''.'' @ s"

definition example_dialect :: env where
  "example_dialect =
     \<lparr>dialect_name = ''postgres'',
      escape = example_escape,
      quoteIdentifier = example_quoteIdentifier,
      quoteTable = example_quoteTable,
      extractTableDetails = example_extractTableDetails,
      generateIndexName = (\<lambda>t attrs. tableName t @ ''_'' @ array_join ''_'' attrs),
      generateEnumName = (\<lambda>t c replacement. (if replacement then ''tmp_enum_'' else ''enum_'') @ t @ ''_'' @ c),
      generateSequenceName = (\<lambda>t c. t @ ''_'' @ c @ ''_seq''),
      joinSQLFragments = (\<lambda>fragments. array_join '' '' (filter (\<lambda>f. f \<noteq> []) fragments)),
      buildJsonPath = (\<lambda>path. ''$'' @ concat (map example_path_token path)),
      normalizeChangeColumnAttribute = (\<lambda>attribute. attribute),
      super_changeColumnsQuery = (\<lambda>t defs. Inr (''ALTER TABLE '' @ example_quoteTable t @ '' ALTER COLUMN '' @ array_join '', ALTER COLUMN '' (map (\<lambda>entry. example_quoteIdentifier (fst entry)) defs) @ '';''))\<rparr>"




section \<open>Index removal\<close>

text \<open>
  Claim C1. For every table reference and index name, \<^verbatim>\<open>removeIndexQuery\<close> of the
  Postgres generator, called with options in which \<^verbatim>\<open>cascade\<close> and \<^verbatim>\<open>concurrently\<close> are
  both \<^verbatim>\<open>true\<close>, fails with the error on the incompatible option combination. The
  result is this error for every collaborator, so nothing the collaborators build is
  part of it, and no SQL string is returned.
\<close>

theorem removeIndexQuery_cascade_concurrently_rejected:
  "get_option opts ''cascade'' = Some True \<Longrightarrow> get_option opts ''concurrently'' = Some True \<Longrightarrow>
   postgres_removeIndexQuery env tableNameOrModel indexNameOrAttributes opts =
     Inl (Error (''Cannot specify both concurrently and cascade options in removeIndexQuery for ''
                 @ dialect_name env @ '' dialect''))"
  by (simp add: postgres_removeIndexQuery_def truthy_def)

theorem removeIndexQuery_cascade_concurrently_rejected_witness:
  "postgres_removeIndexQuery example_dialect (TableName ''users'') (IndexName ''users_email'')
     (Some [(''ifExists'', True), (''cascade'', True), (''concurrently'', True)]) =
   Inl (Error ''Cannot specify both concurrently and cascade options in removeIndexQuery for postgres dialect'')"
  using removeIndexQuery_cascade_concurrently_rejected
          [of "Some [(''ifExists'', True), (''cascade'', True), (''concurrently'', True)]"
              example_dialect "TableName ''users''" "IndexName ''users_email''"]
  by (simp add: get_option_def example_dialect_def)

text \<open>
  Claim C2, as amended. \<^verbatim>\<open>removeIndexQuery\<close> of the MariaDB generator rejects at call time,
  before it builds anything, every options object that holds a key outside its supported
  set, which is \<^verbatim>\<open>ifExists\<close> alone: \<^verbatim>\<open>cascade\<close> and \<^verbatim>\<open>concurrently\<close> are rejected. The
  error names the invalid keys, in the order the object holds them. With no key but
  \<^verbatim>\<open>ifExists\<close>, or with no options, it returns the \<^verbatim>\<open>DROP INDEX\<close> statement.
  \<^verbatim>\<open>removeIndexQuery\<close> of the Postgres generator does not validate keys: a key other than
  \<^verbatim>\<open>ifExists\<close>, \<^verbatim>\<open>cascade\<close> and \<^verbatim>\<open>concurrently\<close> changes nothing in its result, and it
  returns the \<^verbatim>\<open>DROP INDEX\<close> statement unless \<^verbatim>\<open>cascade\<close> and \<^verbatim>\<open>concurrently\<close> are both
  \<^verbatim>\<open>true\<close>.
\<close>

theorem removeIndexQuery_option_keys:
  "(\<not> set (map fst obj) \<subseteq> {''ifExists''} \<longrightarrow>
      mariadb_removeIndexQuery env tableNameOrModel indexNameOrAttributes (Some obj) =
        Inl (InvalidOptions ''removeIndexQuery'' (dialect_name env)
               (filter (\<lambda>key. key \<noteq> ''ifExists'') (map fst obj))))
   \<and> (set (map fst obj) \<subseteq> {''ifExists''} \<longrightarrow>
      mariadb_removeIndexQuery env tableNameOrModel indexNameOrAttributes (Some obj) =
        Inr (joinSQLFragments env
               [''DROP INDEX'',
                if map_of obj ''ifExists'' = Some True then ''IF EXISTS'' else [],
                quoteIdentifier env
                  (case indexNameOrAttributes of
                     Attributes attrs \<Rightarrow>
                       generateIndexName env (extractTableDetails env tableNameOrModel) attrs
                   | IndexName n \<Rightarrow> n),
                ''ON'',
                quoteTable env tableNameOrModel]))
   \<and> mariadb_removeIndexQuery env tableNameOrModel indexNameOrAttributes None =
        Inr (joinSQLFragments env
               [''DROP INDEX'',
                [],
                quoteIdentifier env
                  (case indexNameOrAttributes of
                     Attributes attrs \<Rightarrow>
                       generateIndexName env (extractTableDetails env tableNameOrModel) attrs
                   | IndexName n \<Rightarrow> n),
                ''ON'',
                quoteTable env tableNameOrModel])
   \<and> (k \<noteq> ''ifExists'' \<and> k \<noteq> ''cascade'' \<and> k \<noteq> ''concurrently'' \<longrightarrow>
      postgres_removeIndexQuery env tableNameOrModel indexNameOrAttributes (Some ((k, v) # obj)) =
        postgres_removeIndexQuery env tableNameOrModel indexNameOrAttributes (Some obj))
   \<and> (\<not> (get_option opts ''cascade'' = Some True \<and> get_option opts ''concurrently'' = Some True) \<longrightarrow>
      postgres_removeIndexQuery env tableNameOrModel indexNameOrAttributes opts =
        Inr (joinSQLFragments env
               [''DROP INDEX'',
                if get_option opts ''concurrently'' = Some True then ''CONCURRENTLY'' else [],
                if get_option opts ''ifExists'' = Some True then ''IF EXISTS'' else [],
                quoteIdentifier env (schema (extractTableDetails env tableNameOrModel)) @ ''.''
                @ quoteIdentifier env
                    (case indexNameOrAttributes of
                       Attributes attrs \<Rightarrow>
                         generateIndexName env (extractTableDetails env tableNameOrModel) attrs
                     | IndexName n \<Rightarrow> n),
                if get_option opts ''cascade'' = Some True then ''CASCADE'' else []]))"
proof (intro conjI impI)
  have unsupported: "filter (\<lambda>key. key \<notin> set REMOVE_INDEX_QUERY_SUPPORTED_OPTIONS) (map fst obj) =
                     filter (\<lambda>key. key \<noteq> ''ifExists'') (map fst obj)"
    by (simp add: REMOVE_INDEX_QUERY_SUPPORTED_OPTIONS_def)
  {
    assume "\<not> set (map fst obj) \<subseteq> {''ifExists''}"
    then have "filter (\<lambda>key. key \<noteq> ''ifExists'') (map fst obj) \<noteq> []"
      unfolding filter_empty_conv by blast
    with unsupported
    show "mariadb_removeIndexQuery env tableNameOrModel indexNameOrAttributes (Some obj) =
        Inl (InvalidOptions ''removeIndexQuery'' (dialect_name env)
               (filter (\<lambda>key. key \<noteq> ''ifExists'') (map fst obj)))"
      by (simp add: mariadb_removeIndexQuery_def rejectInvalidOptions_def Let_def)
  }
  {
    assume "set (map fst obj) \<subseteq> {''ifExists''}"
    then have "filter (\<lambda>key. key \<noteq> ''ifExists'') (map fst obj) = []"
      unfolding filter_empty_conv by blast
    with unsupported
    show "mariadb_removeIndexQuery env tableNameOrModel indexNameOrAttributes (Some obj) =
        Inr (joinSQLFragments env
               [''DROP INDEX'',
                if map_of obj ''ifExists'' = Some True then ''IF EXISTS'' else [],
                quoteIdentifier env
                  (case indexNameOrAttributes of
                     Attributes attrs \<Rightarrow>
                       generateIndexName env (extractTableDetails env tableNameOrModel) attrs
                   | IndexName n \<Rightarrow> n),
                ''ON'',
                quoteTable env tableNameOrModel])"
      by (simp add: mariadb_removeIndexQuery_def rejectInvalidOptions_def get_option_def truthy_def
                    Let_def)
  }
  show "mariadb_removeIndexQuery env tableNameOrModel indexNameOrAttributes None =
        Inr (joinSQLFragments env
               [''DROP INDEX'',
                [],
                quoteIdentifier env
                  (case indexNameOrAttributes of
                     Attributes attrs \<Rightarrow>
                       generateIndexName env (extractTableDetails env tableNameOrModel) attrs
                   | IndexName n \<Rightarrow> n),
                ''ON'',
                quoteTable env tableNameOrModel])"
    by (simp add: mariadb_removeIndexQuery_def get_option_def truthy_def Let_def)
  {
    assume other: "k \<noteq> ''ifExists'' \<and> k \<noteq> ''cascade'' \<and> k \<noteq> ''concurrently''"
    have read: "get_option (Some ((k, v) # obj)) key = get_option (Some obj) key" if "key \<noteq> k" for key
      using that by (simp add: get_option_def)
    from other have "get_option (Some ((k, v) # obj)) ''ifExists'' = get_option (Some obj) ''ifExists''"
      and "get_option (Some ((k, v) # obj)) ''cascade'' = get_option (Some obj) ''cascade''"
      and "get_option (Some ((k, v) # obj)) ''concurrently'' = get_option (Some obj) ''concurrently''"
      by (auto intro: read)
    then show "postgres_removeIndexQuery env tableNameOrModel indexNameOrAttributes (Some ((k, v) # obj)) =
          postgres_removeIndexQuery env tableNameOrModel indexNameOrAttributes (Some obj)"
      unfolding postgres_removeIndexQuery_def by simp
  }
  {
    assume "\<not> (get_option opts ''cascade'' = Some True \<and> get_option opts ''concurrently'' = Some True)"
    then show "postgres_removeIndexQuery env tableNameOrModel indexNameOrAttributes opts =
        Inr (joinSQLFragments env
               [''DROP INDEX'',
                if get_option opts ''concurrently'' = Some True then ''CONCURRENTLY'' else [],
                if get_option opts ''ifExists'' = Some True then ''IF EXISTS'' else [],
                quoteIdentifier env (schema (extractTableDetails env tableNameOrModel)) @ ''.''
                @ quoteIdentifier env
                    (case indexNameOrAttributes of
                       Attributes attrs \<Rightarrow>
                         generateIndexName env (extractTableDetails env tableNameOrModel) attrs
                     | IndexName n \<Rightarrow> n),
                if get_option opts ''cascade'' = Some True then ''CASCADE'' else []])"
      by (simp add: postgres_removeIndexQuery_def truthy_def Let_def)
  }
qed

theorem removeIndexQuery_option_keys_witness:
  "mariadb_removeIndexQuery (example_dialect\<lparr>dialect_name := ''mariadb''\<rparr>) (TableName ''users'')
     (IndexName ''users_email'') (Some [(''ifExists'', True), (''concurrently'', True), (''cascade'', True)]) =
     Inl (InvalidOptions ''removeIndexQuery'' ''mariadb'' [''concurrently'', ''cascade''])
   \<and> mariadb_removeIndexQuery (example_dialect\<lparr>dialect_name := ''mariadb''\<rparr>) (TableName ''users'')
        (IndexName ''users_email'') (Some [(''ifExists'', True)]) =
      Inr ''DROP INDEX IF EXISTS \"users_email\" ON \"public\".\"users\"''
   \<and> postgres_removeIndexQuery example_dialect (TableName ''users'') (IndexName ''users_email'')
        (Some [(''unknown'', True), (''cascade'', True)]) =
      postgres_removeIndexQuery example_dialect (TableName ''users'') (IndexName ''users_email'')
        (Some [(''cascade'', True)])
   \<and> postgres_removeIndexQuery example_dialect (TableName ''users'') (IndexName ''users_email'')
        (Some [(''cascade'', True)]) =
      Inr ''DROP INDEX \"public\".\"users_email\" CASCADE''"
  using removeIndexQuery_option_keys
          [where obj = "[(''ifExists'', True), (''concurrently'', True), (''cascade'', True)]"
             and env = "example_dialect\<lparr>dialect_name := ''mariadb''\<rparr>"
             and tableNameOrModel = "TableName ''users''"
             and indexNameOrAttributes = "IndexName ''users_email''"
             and k = "''unknown''" and v = True and opts = "Some [(''cascade'', True)]"]
        removeIndexQuery_option_keys
          [where obj = "[(''ifExists'', True)]"
             and env = "example_dialect\<lparr>dialect_name := ''mariadb''\<rparr>"
             and tableNameOrModel = "TableName ''users''"
             and indexNameOrAttributes = "IndexName ''users_email''"
             and k = "''unknown''" and v = True and opts = "Some [(''cascade'', True)]"]
        removeIndexQuery_option_keys
          [where obj = "[(''cascade'', True)]"
             and env = example_dialect
             and tableNameOrModel = "TableName ''users''"
             and indexNameOrAttributes = "IndexName ''users_email''"
             and k = "''unknown''" and v = True and opts = "Some [(''cascade'', True)]"]
  by (simp add: get_option_def example_dialect_def example_quoteIdentifier_def example_quoteTable_def)

text \<open>
  As first stated, the claim has the Postgres generator reject every key outside the
  supported set. It does not: an options object with an unknown key yields the
  \<^verbatim>\<open>DROP INDEX\<close> statement.
\<close>

theorem removeIndexQuery_unknown_key_counterexample:
  "postgres_removeIndexQuery example_dialect (TableName ''users'') (IndexName ''users_email'')
     (Some [(''unknown'', True)]) = Inr ''DROP INDEX \"public\".\"users_email\"''"
  by (simp add: postgres_removeIndexQuery_def get_option_def truthy_def example_dialect_def
                example_quoteIdentifier_def)

section \<open>JSON path extraction\<close>

text \<open>
  Claim C7. For every SQL expression and non-empty path, the Postgres
  \<^verbatim>\<open>jsonPathExtractionQuery\<close> returns the input expression, unchanged, followed by an
  operator and the escaped path. A path of one segment takes the single-level accessor
  (\<^verbatim>\<open>->\<close>, or \<^verbatim>\<open>->>\<close> to unquote) and the segment escaped as it is; a path of two or more
  segments takes the path operator (\<^verbatim>\<open>#>\<close>, or \<^verbatim>\<open>#>>\<close>) and the path escaped as an array
  whose elements are all strings, numeric segments included.
\<close>

theorem jsonPathExtractionQuery_operator_by_length:
  "(path = [seg] \<longrightarrow>
      postgres_jsonPathExtractionQuery env sqlExpression path unquote =
        sqlExpression @ (if unquote then ''->>'' else ''->'') @ escape env (segment_value seg))
   \<and> (2 \<le> length path \<longrightarrow>
      postgres_jsonPathExtractionQuery env sqlExpression path unquote =
        sqlExpression @ (if unquote then ''#>>'' else ''#>'')
        @ escape env (JArray (map (\<lambda>v. JString (String_of v)) path)))"
proof (intro conjI impI)
  assume "path = [seg]"
  then show "postgres_jsonPathExtractionQuery env sqlExpression path unquote =
        sqlExpression @ (if unquote then ''->>'' else ''->'') @ escape env (segment_value seg)"
    by (simp add: postgres_jsonPathExtractionQuery_def)
next
  assume len: "2 \<le> length path"
  then obtain a b rest where "path = a # b # rest"
    by (cases path; cases "tl path") auto
  then show "postgres_jsonPathExtractionQuery env sqlExpression path unquote =
        sqlExpression @ (if unquote then ''#>>'' else ''#>'')
        @ escape env (JArray (map (\<lambda>v. JString (String_of v)) path))"
    by (simp add: postgres_jsonPathExtractionQuery_def)
qed

theorem jsonPathExtractionQuery_operator_by_length_witness:
  "postgres_jsonPathExtractionQuery example_dialect ''\"data\"'' [SegNumber 0] False = ''\"data\"->0''
   \<and> postgres_jsonPathExtractionQuery example_dialect ''\"data\"'' [SegString ''tags'', SegNumber 12] True
       = ''\"data\"#>>ARRAY['tags','12']''"
  using jsonPathExtractionQuery_operator_by_length
          [of "[SegNumber 0]" "SegNumber 0" example_dialect "''\"data\"''" False]
        jsonPathExtractionQuery_operator_by_length
          [of "[SegString ''tags'', SegNumber 12]" "SegNumber 0" example_dialect "''\"data\"''" True]
  by (simp add: example_dialect_def number_to_string_def nat_to_string.simps)

text \<open>
  Claim C8. For every SQL expression and path, in both generators, the results of
  \<^verbatim>\<open>jsonPathExtractionQuery\<close> with and without \<^verbatim>\<open>unquote\<close> differ only in the unquoting
  operator or wrapper. In Postgres the two results have the same expression and the
  same escaped path, joined by \<^verbatim>\<open>->\<close> against \<^verbatim>\<open>->>\<close> or by \<^verbatim>\<open>#>\<close> against \<^verbatim>\<open>#>>\<close>. In MariaDB
  the two results wrap the same \<^verbatim>\<open>json_extract\<close> call, in \<^verbatim>\<open>json_compact\<close> against
  \<^verbatim>\<open>json_unquote\<close>.
\<close>

theorem jsonPathExtractionQuery_unquote_differs_by_operator:
  "(\<exists>operator operand.
       (operator = ''->'' \<or> operator = ''#>'')
     \<and> postgres_jsonPathExtractionQuery env sqlExpression path False = sqlExpression @ operator @ operand
     \<and> postgres_jsonPathExtractionQuery env sqlExpression path True = sqlExpression @ operator @ ''>'' @ operand)
   \<and> (\<exists>extractQuery.
       extractQuery = ''json_extract('' @ sqlExpression @ '','' @ escape env' (JString (buildJsonPath env' path)) @ '')''
     \<and> mariadb_jsonPathExtractionQuery env' sqlExpression path False = ''json_compact('' @ extractQuery @ '')''
     \<and> mariadb_jsonPathExtractionQuery env' sqlExpression path True = ''json_unquote('' @ extractQuery @ '')'')"
proof (intro conjI)
  show "\<exists>operator operand.
       (operator = ''->'' \<or> operator = ''#>'')
     \<and> postgres_jsonPathExtractionQuery env sqlExpression path False = sqlExpression @ operator @ operand
     \<and> postgres_jsonPathExtractionQuery env sqlExpression path True = sqlExpression @ operator @ ''>'' @ operand"
  proof (cases "length path = 1")
    case True
    then show ?thesis
      by (intro exI[where x = "''->''"]
                exI[where x = "case path of [seg] \<Rightarrow> escape env (segment_value seg)
                               | _ \<Rightarrow> escape env (JArray (map (\<lambda>v. JString (String_of v)) path))"])
         (simp add: postgres_jsonPathExtractionQuery_def)
  next
    case False
    then show ?thesis
      by (intro exI[where x = "''#>''"]
                exI[where x = "case path of [seg] \<Rightarrow> escape env (segment_value seg)
                               | _ \<Rightarrow> escape env (JArray (map (\<lambda>v. JString (String_of v)) path))"])
         (simp add: postgres_jsonPathExtractionQuery_def)
  qed
next
  show "\<exists>extractQuery.
       extractQuery = ''json_extract('' @ sqlExpression @ '','' @ escape env' (JString (buildJsonPath env' path)) @ '')''
     \<and> mariadb_jsonPathExtractionQuery env' sqlExpression path False = ''json_compact('' @ extractQuery @ '')''
     \<and> mariadb_jsonPathExtractionQuery env' sqlExpression path True = ''json_unquote('' @ extractQuery @ '')''"
    by (simp add: mariadb_jsonPathExtractionQuery_def)
qed

theorem jsonPathExtractionQuery_unquote_differs_by_operator_witness:
  "(\<exists>operator operand.
       (operator = ''->'' \<or> operator = ''#>'')
     \<and> postgres_jsonPathExtractionQuery example_dialect ''data'' [SegString ''a'', SegNumber 0] False
         = ''data'' @ operator @ operand
     \<and> postgres_jsonPathExtractionQuery example_dialect ''data'' [SegString ''a'', SegNumber 0] True
         = ''data'' @ operator @ ''>'' @ operand)
   \<and> (\<exists>extractQuery.
       extractQuery = ''json_extract('' @ ''data'' @ '','' @ escape example_dialect (JString (buildJsonPath example_dialect [SegString ''a'', SegNumber 0])) @ '')''
     \<and> mariadb_jsonPathExtractionQuery example_dialect ''data'' [SegString ''a'', SegNumber 0] False
         = ''json_compact('' @ extractQuery @ '')''
     \<and> mariadb_jsonPathExtractionQuery example_dialect ''data'' [SegString ''a'', SegNumber 0] True
         = ''json_unquote('' @ extractQuery @ '')'')"
  using jsonPathExtractionQuery_unquote_differs_by_operator
          [of example_dialect "''data''" "[SegString ''a'', SegNumber 0]" example_dialect]
  .

section \<open>Enum types\<close>

text \<open>
  Claim C9. For every table reference and every data type that is not an instance of
  \<^verbatim>\<open>ENUM\<close>, \<^verbatim>\<open>createEnumQuery\<close> fails with the \<^verbatim>\<open>TypeError\<close> and returns no SQL, whatever
  the collaborators are. For an \<^verbatim>\<open>ENUM\<close> it returns the \<^verbatim>\<open>DO\<close> block that creates the type
  and swallows \<^verbatim>\<open>duplicate_object\<close>, preceded by the \<^verbatim>\<open>DROP TYPE IF EXISTS\<close> statement
  exactly when \<^verbatim>\<open>force\<close> is \<^verbatim>\<open>true\<close>.
\<close>

theorem createEnumQuery_requires_ENUM:
  "(\<not> is_ENUM dt \<longrightarrow>
      createEnumQuery env tableOrModel dt opts =
        Inl (TypeError ''createEnumQuery expects an instance of the ENUM DataType''))
   \<and> createEnumQuery env tableOrModel (ENUM enumName vals) opts =
        Inr ((if (case opts of None \<Rightarrow> None | Some obj \<Rightarrow> force obj) = Some True
              then ''DROP TYPE IF EXISTS '' @ quoteIdentifier env (schema (extractTableDetails env tableOrModel))
                   @ ''.'' @ quoteIdentifier env enumName @ ''; ''
              else [])
             @ ''DO '' @ escape env (JString (''BEGIN CREATE TYPE ''
                 @ quoteIdentifier env (schema (extractTableDetails env tableOrModel)) @ ''.''
                 @ quoteIdentifier env enumName @ ''  AS ENUM(''
                 @ array_join '', '' (map (\<lambda>v. escape env (JString v)) vals)
                 @ ''); EXCEPTION WHEN duplicate_object THEN null; END'')) @ '';'')"
  by (cases dt) (simp_all add: createEnumQuery_def dropEnumQuery_def Let_def)

theorem createEnumQuery_requires_ENUM_witness:
  "createEnumQuery example_dialect (TableName ''users'') (OtherType ''INTEGER'') None =
     Inl (TypeError ''createEnumQuery expects an instance of the ENUM DataType'')
   \<and> createEnumQuery example_dialect (TableName ''users'') (ENUM ''enum_users_mood'' [''happy'', ''sad''])
        (Some \<lparr>force = Some True\<rparr>) =
     Inr (''DROP TYPE IF EXISTS \"public\".\"enum_users_mood\"; DO ''
          @ example_escape (JString ''BEGIN CREATE TYPE \"public\".\"enum_users_mood\"  AS ENUM('happy', 'sad'); EXCEPTION WHEN duplicate_object THEN null; END'')
          @ '';'')"
  using createEnumQuery_requires_ENUM
          [of "OtherType ''INTEGER''" example_dialect "TableName ''users''" None
              "''enum_users_mood''" "[''happy'', ''sad'']"]
        createEnumQuery_requires_ENUM
          [of "OtherType ''INTEGER''" example_dialect "TableName ''users''" "Some \<lparr>force = Some True\<rparr>"
              "''enum_users_mood''" "[''happy'', ''sad'']"]
  by (simp add: example_dialect_def example_quoteIdentifier_def)

text \<open>
  Claim C6, as amended. For every schema, enum name and value, \<^verbatim>\<open>addValueToEnumQuery\<close>
  returns a statement that begins \<^verbatim>\<open>ALTER TYPE ... ADD VALUE IF NOT EXISTS\<close> with the
  escaped value; a data type instance stands for the name its \<^verbatim>\<open>toSql()\<close> returns. With
  no options, or with neither \<^verbatim>\<open>before\<close> nor \<^verbatim>\<open>after\<close>, the statement has no positioning
  clause. With a non-empty \<^verbatim>\<open>before\<close> the clause is \<^verbatim>\<open>BEFORE\<close> and \<^verbatim>\<open>after\<close> is ignored,
  whatever it is. With no \<^verbatim>\<open>before\<close> and a non-empty \<^verbatim>\<open>after\<close> the clause is \<^verbatim>\<open>AFTER\<close>.
\<close>

theorem addValueToEnumQuery_positioning:
  "prefix (''ALTER TYPE  '' @ quoteIdentifier env schema_name @ ''.'' @ quoteIdentifier env enumName
           @ '' ADD VALUE IF NOT EXISTS '' @ escape env (JString val))
          (addValueToEnumQuery env schema_name (TypeName enumName) val opts)
   \<and> addValueToEnumQuery env schema_name (DataType dt) val opts =
       addValueToEnumQuery env schema_name (TypeName (toSql dt)) val opts
   \<and> addValueToEnumQuery env schema_name (TypeName enumName) val None =
       ''ALTER TYPE  '' @ quoteIdentifier env schema_name @ ''.'' @ quoteIdentifier env enumName
       @ '' ADD VALUE IF NOT EXISTS '' @ escape env (JString val)
   \<and> addValueToEnumQuery env schema_name (TypeName enumName) val (Some \<lparr>before = None, after = None\<rparr>) =
       ''ALTER TYPE  '' @ quoteIdentifier env schema_name @ ''.'' @ quoteIdentifier env enumName
       @ '' ADD VALUE IF NOT EXISTS '' @ escape env (JString val)
   \<and> (b \<noteq> [] \<longrightarrow>
       addValueToEnumQuery env schema_name (TypeName enumName) val (Some \<lparr>before = Some b, after = any\<rparr>) =
       ''ALTER TYPE  '' @ quoteIdentifier env schema_name @ ''.'' @ quoteIdentifier env enumName
       @ '' ADD VALUE IF NOT EXISTS '' @ escape env (JString val) @ '' BEFORE '' @ escape env (JString b))
   \<and> (a \<noteq> [] \<longrightarrow>
       addValueToEnumQuery env schema_name (TypeName enumName) val (Some \<lparr>before = None, after = Some a\<rparr>) =
       ''ALTER TYPE  '' @ quoteIdentifier env schema_name @ ''.'' @ quoteIdentifier env enumName
       @ '' ADD VALUE IF NOT EXISTS '' @ escape env (JString val) @ '' AFTER '' @ escape env (JString a))"
  by (simp add: addValueToEnumQuery_def truthy_string_def Let_def)

theorem addValueToEnumQuery_positioning_witness:
  "addValueToEnumQuery example_dialect ''public'' (TypeName ''mood'') ''ok''
     (Some \<lparr>before = Some ''happy'', after = Some ''sad''\<rparr>) =
   ''ALTER TYPE  \"public\".\"mood\" ADD VALUE IF NOT EXISTS 'ok' BEFORE '' @ example_escape (JString ''happy'')
   \<and> addValueToEnumQuery example_dialect ''public'' (TypeName ''mood'') ''ok''
     (Some \<lparr>before = None, after = Some ''sad''\<rparr>) =
   ''ALTER TYPE  \"public\".\"mood\" ADD VALUE IF NOT EXISTS 'ok' AFTER '' @ example_escape (JString ''sad'')"
  using addValueToEnumQuery_positioning
          [where env = example_dialect and schema_name = "''public''" and enumName = "''mood''"
             and val = "''ok''" and opts = None and dt = "OtherType ''mood''"
             and b = "''happy''" and any = "Some ''sad''" and a = "''sad''"]
  by (simp add: example_dialect_def example_quoteIdentifier_def)

text \<open>
  As first stated, the claim has \<^verbatim>\<open>before\<close> win whenever both keys are supplied. An empty
  \<^verbatim>\<open>before\<close> fails the truthiness test, and the clause is then \<^verbatim>\<open>AFTER\<close>.
\<close>

theorem addValueToEnumQuery_empty_before_counterexample:
  "addValueToEnumQuery example_dialect ''public'' (TypeName ''mood'') ''ok''
     (Some \<lparr>before = Some [], after = Some ''sad''\<rparr>) =
   ''ALTER TYPE  \"public\".\"mood\" ADD VALUE IF NOT EXISTS 'ok' AFTER '' @ example_escape (JString ''sad'')"
  by (simp add: addValueToEnumQuery_def truthy_string_def example_dialect_def example_quoteIdentifier_def)

section \<open>Changing columns\<close>

subsection \<open>The shape of the statement array\<close>

text \<open>
  One pass of the loop body puts the column's leading statements in front of the array
  and its trailing statements behind it, unless the column's type is an array of enum:
  then the guard of the enum branch holds and \<^verbatim>\<open>createEnumQuery\<close> throws.
\<close>

lemma column_statements_structure:
  assumes "case dataType d of None \<Rightarrow> True | Some t \<Rightarrow> \<not> is_ARRAY_of_ENUM t"
  shows "column_statements env table out (c, d) =
           Inr (statements_before env table (c, d) @ out @ statements_after env table (c, d))"
proof (cases "dataType d")
  case None
  then show ?thesis
    by (simp add: column_statements_def statements_before_def statements_after_def Let_def
             split: option.splits)
next
  case (Some t)
  with assms have "\<not> is_ARRAY_of_ENUM t" by simp
  with Some show ?thesis
    by (cases t)
       (simp_all add: column_statements_def statements_before_def statements_after_def
                      createEnumQuery_def Let_def
                 split: option.splits)
qed

lemma column_statements_array_of_enum:
  assumes "dataType d = Some t" and "is_ARRAY_of_ENUM t"
  shows "column_statements env table out (c, d) =
           Inl (TypeError ''createEnumQuery expects an instance of the ENUM DataType'')"
  using assms
  by (cases t) (simp_all add: column_statements_def createEnumQuery_def Let_def)

lemma columns_loop_structure:
  assumes "list_all (\<lambda>entry. case dataType (snd entry) of None \<Rightarrow> True
                                | Some t \<Rightarrow> \<not> is_ARRAY_of_ENUM t) entries"
  shows "columns_loop env table entries out =
           Inr (concat (rev (map (statements_before env table) entries)) @ out
                @ concat (map (statements_after env table) entries))"
  using assms
proof (induction entries arbitrary: out)
  case Nil
  then show ?case by simp
next
  case (Cons entry entries)
  obtain c d where entry: "entry = (c, d)" by (cases entry)
  from Cons.prems entry
  have step: "column_statements env table out entry =
                Inr (statements_before env table entry @ out @ statements_after env table entry)"
    by (simp add: column_statements_structure)
  from Cons.prems
  have rest: "list_all (\<lambda>entry. case dataType (snd entry) of None \<Rightarrow> True
                                  | Some t \<Rightarrow> \<not> is_ARRAY_of_ENUM t) entries"
    by simp
  show ?case
    by (simp add: step Cons.IH[OF rest])
qed

lemma columns_loop_array_of_enum:
  assumes "(c, d) \<in> set entries" and "dataType d = Some t" and "is_ARRAY_of_ENUM t"
  shows "columns_loop env table entries out =
           Inl (TypeError ''createEnumQuery expects an instance of the ENUM DataType'')"
  using assms(1)
proof (induction entries arbitrary: out)
  case Nil
  then show ?case by simp
next
  case (Cons entry entries)
  obtain c' d' where entry: "entry = (c', d')" by (cases entry)
  show ?case
  proof (cases "case dataType d' of None \<Rightarrow> True | Some t' \<Rightarrow> \<not> is_ARRAY_of_ENUM t'")
    case True
    with Cons.prems entry assms(2,3) have "(c, d) \<in> set entries"
      by auto
    from Cons.IH[OF this] True entry show ?thesis
      by (simp add: column_statements_structure)
  next
    case False
    then obtain t' where "dataType d' = Some t'" and "is_ARRAY_of_ENUM t'"
      by (auto split: option.splits)
    with entry show ?thesis
      by (simp add: column_statements_array_of_enum)
  qed
qed

lemma changeColumnsQuery_structure:
  assumes sup: "super_changeColumnsQuery env tableOrModel columnDefinitions = Inr sql"
      and ok: "no_array_of_enum env columnDefinitions"
  shows "changeColumnsQuery env tableOrModel columnDefinitions =
           Inr (array_join '' ''
                  (concat (rev (map (statements_before env (extractTableDetails env tableOrModel))
                                    (map (\<lambda>(columnName, attribute).
                                            (columnName, normalizeChangeColumnAttribute env attribute))
                                         columnDefinitions)))
                   @ (if sql \<noteq> [] then [sql] else [])
                   @ concat (map (statements_after env (extractTableDetails env tableOrModel))
                                 (map (\<lambda>(columnName, attribute).
                                         (columnName, normalizeChangeColumnAttribute env attribute))
                                      columnDefinitions))))"
proof -
  from ok
  have "list_all (\<lambda>entry. case dataType (snd entry) of None \<Rightarrow> True
                            | Some t \<Rightarrow> \<not> is_ARRAY_of_ENUM t)
          (map (\<lambda>(columnName, attribute). (columnName, normalizeChangeColumnAttribute env attribute))
               columnDefinitions)"
    by (simp add: no_array_of_enum_def list_all_iff split_beta)
  from columns_loop_structure[OF this] sup show ?thesis
    by (simp add: changeColumnsQuery_def Let_def)
qed

subsection \<open>The kinds of statement on either side\<close>

lemma statements_before_kinds:
  "s \<in> set (statements_before env table entry) \<Longrightarrow>
     prefix ''CREATE SEQUENCE '' s \<or> prefix ''DO '' s"
  by (cases entry)
     (auto simp: statements_before_def createEnumQuery_def Let_def truthy_def
           split: option.splits data_type.splits if_splits)






lemma comment_statements_counted:
  "length (filter (prefix ''COMMENT ON COLUMN '') (statements_after env table entry)) =
     (if comment (snd entry) \<noteq> None then 1 else 0)"
  by (cases entry)
     (auto simp: statements_after_def dropEnumQuery_def Let_def
           split: option.splits data_type.splits)

lemma comment_statements_after:
  "length (filter (prefix ''COMMENT ON COLUMN '')
             (concat (map (statements_after env table) entries))) =
   length (filter (\<lambda>entry. comment (snd entry) \<noteq> None) entries)"
  by (induction entries) (simp_all add: comment_statements_counted)

lemma comment_statements_before:
  "filter (prefix ''COMMENT ON COLUMN '')
     (concat (rev (map (statements_before env table) entries))) = []"
proof -
  have "\<not> prefix ''COMMENT ON COLUMN '' s"
    if "s \<in> set (concat (rev (map (statements_before env table) entries)))" for s
  proof -
    from that obtain entry where "s \<in> set (statements_before env table entry)"
      by auto
    from statements_before_kinds[OF this] show ?thesis
      by (auto simp: prefix_def)
  qed
  then show ?thesis
    by (simp add: filter_empty_conv)
qed






subsection \<open>Columns of an enum type\<close>

text \<open>
  A column whose new type is an \<^verbatim>\<open>ENUM\<close>, alone in the mapping, with no comment key and no
  auto-increment flag: the batch is the enum creation, the column-alter statement, the
  drop of the old enum and the rename of the new one to the canonical name, in this
  order.
\<close>

lemma changeColumnsQuery_enum_column_order:
  assumes sup: "super_changeColumnsQuery env tableOrModel [(columnName, attribute)] = Inr sql"
      and alter: "sql \<noteq> []"
      and enum: "dataType (normalizeChangeColumnAttribute env attribute) = Some (ENUM n vs)"
      and plain_column: "comment (normalizeChangeColumnAttribute env attribute) = None"
                        "autoIncrement (normalizeChangeColumnAttribute env attribute) = None"
  shows "\<exists>create.
      createEnumQuery env (TableNameWithSchema (extractTableDetails env tableOrModel)) (ENUM n vs) None
        = Inr create
    \<and> changeColumnsQuery env tableOrModel [(columnName, attribute)] =
        Inr (array_join '' ''
          [create,
           sql,
           ''DROP TYPE IF EXISTS '' @ quoteIdentifier env (schema (extractTableDetails env tableOrModel))
           @ ''.'' @ quoteIdentifier env
                       (generateEnumName env (tableName (extractTableDetails env tableOrModel)) columnName False)
           @ ''; '',
           ''ALTER TYPE '' @ quoteIdentifier env (schema (extractTableDetails env tableOrModel)) @ ''.''
           @ quoteIdentifier env
               (generateEnumName env (tableName (extractTableDetails env tableOrModel)) columnName True)
           @ '' RENAME TO ''
           @ quoteIdentifier env
               (generateEnumName env (tableName (extractTableDetails env tableOrModel)) columnName False)
           @ '';''])"
proof -
  from enum have ok: "no_array_of_enum env [(columnName, attribute)]"
    by (simp add: no_array_of_enum_def)
  from changeColumnsQuery_structure[OF sup ok] alter enum plain_column show ?thesis
    by (simp add: statements_before_def statements_after_def createEnumQuery_def dropEnumQuery_def
                  truthy_def Let_def)
qed

text \<open>
  Claim C3 has \<^verbatim>\<open>changeColumnsQuery\<close> emit, for every column whose new type is an enum or an
  array of enum, the enum creation, the column-alter statement, the drop of the old enum
  and the rename, in this order. For an enum the lemma above has it so. For an array of
  enum the code does otherwise: the guard of the enum branch admits the column, and
  \<^verbatim>\<open>createEnumQuery\<close> is then handed the \<^verbatim>\<open>ARRAY\<close> instance, which it rejects. Whenever
  the inherited generator has returned its statement and some column is an array of
  enum, \<^verbatim>\<open>changeColumnsQuery\<close> throws the \<^verbatim>\<open>TypeError\<close> of \<^verbatim>\<open>createEnumQuery\<close> and returns no
  statement at all.
\<close>

theorem changeColumnsQuery_array_of_enum_throws:
  assumes "super_changeColumnsQuery env tableOrModel columnDefinitions = Inr sql"
      and "(columnName, attribute) \<in> set columnDefinitions"
      and "dataType (normalizeChangeColumnAttribute env attribute) = Some t"
      and "is_ARRAY_of_ENUM t"
  shows "changeColumnsQuery env tableOrModel columnDefinitions =
           Inl (TypeError ''createEnumQuery expects an instance of the ENUM DataType'')"
proof -
  from assms(2)
  have "(columnName, normalizeChangeColumnAttribute env attribute)
          \<in> set (map (\<lambda>(columnName, attribute).
                         (columnName, normalizeChangeColumnAttribute env attribute))
                      columnDefinitions)"
    by force
  from columns_loop_array_of_enum[OF this assms(3,4)] assms(1) show ?thesis
    by (simp add: changeColumnsQuery_def Let_def)
qed

theorem changeColumnsQuery_array_of_enum_throws_witness:
  "changeColumnsQuery example_dialect (TableName ''users'')
     [(''roles'', \<lparr>dataType = Some (ARRAY ''enum_users_roles[]'' (ENUM ''enum_users_roles'' [''admin'', ''member''])),
                  comment = None, autoIncrement = None\<rparr>)] =
   Inl (TypeError ''createEnumQuery expects an instance of the ENUM DataType'')"
proof -
  have "super_changeColumnsQuery example_dialect (TableName ''users'')
     [(''roles'', \<lparr>dataType = Some (ARRAY ''enum_users_roles[]'' (ENUM ''enum_users_roles'' [''admin'', ''member''])),
                  comment = None, autoIncrement = None\<rparr>)] =
     Inr ''ALTER TABLE \"public\".\"users\" ALTER COLUMN \"roles\";''"
    by (simp add: example_dialect_def example_quoteTable_def example_quoteIdentifier_def)
  from changeColumnsQuery_array_of_enum_throws
         [OF this, where columnName = "''roles''"
            and attribute = "\<lparr>dataType = Some (ARRAY ''enum_users_roles[]'' (ENUM ''enum_users_roles'' [''admin'', ''member''])),
                               comment = None, autoIncrement = None\<rparr>"
            and t = "ARRAY ''enum_users_roles[]'' (ENUM ''enum_users_roles'' [''admin'', ''member''])"]
  show ?thesis
    by (simp add: example_dialect_def)
qed

subsection \<open>The order of the batch\<close>




subsection \<open>Comments\<close>

text \<open>
  A column alone in the mapping, with no new type and no auto-increment flag, and a
  non-empty column-alter statement. With the \<^verbatim>\<open>comment\<close> key present and holding \<^verbatim>\<open>null\<close>, the
  batch is the column-alter statement, a space and \<^verbatim>\<open>COMMENT ON COLUMN ... IS NULL;\<close>. With
  no \<^verbatim>\<open>comment\<close> key the batch is the column-alter statement alone.
\<close>

lemma changeColumnsQuery_comment_column:
  assumes sup: "super_changeColumnsQuery env tableOrModel [(columnName, attribute)] = Inr sql"
      and alter: "sql \<noteq> []"
      and plain_column: "dataType (normalizeChangeColumnAttribute env attribute) = None"
                        "autoIncrement (normalizeChangeColumnAttribute env attribute) = None"
  shows "(comment (normalizeChangeColumnAttribute env attribute) = Some None \<longrightarrow>
            changeColumnsQuery env tableOrModel [(columnName, attribute)] =
              Inr (sql @ '' '' @ ''COMMENT ON COLUMN ''
                   @ quoteTable env (TableNameWithSchema (extractTableDetails env tableOrModel))
                   @ ''.'' @ quoteIdentifier env columnName @ '' IS NULL;''))
       \<and> (comment (normalizeChangeColumnAttribute env attribute) = None \<longrightarrow>
            changeColumnsQuery env tableOrModel [(columnName, attribute)] = Inr sql)"
proof -
  from plain_column have ok: "no_array_of_enum env [(columnName, attribute)]"
    by (simp add: no_array_of_enum_def)
  from changeColumnsQuery_structure[OF sup ok] alter plain_column show ?thesis
    by (simp add: statements_before_def statements_after_def truthy_def)
qed

text \<open>
  In every batch that is built, the leading part holds no comment statement, and the
  trailing part holds one \<^verbatim>\<open>COMMENT ON COLUMN\<close> statement for each column definition that
  has the \<^verbatim>\<open>comment\<close> key and none for the others.
\<close>

lemma changeColumnsQuery_comment_statements:
  "filter (prefix ''COMMENT ON COLUMN '')
     (concat (rev (map (statements_before env table)
                       (map (\<lambda>(columnName, attribute).
                               (columnName, normalizeChangeColumnAttribute env attribute))
                            columnDefinitions)))) = []
   \<and> length (filter (prefix ''COMMENT ON COLUMN '')
        (concat (map (statements_after env table)
                     (map (\<lambda>(columnName, attribute).
                             (columnName, normalizeChangeColumnAttribute env attribute))
                          columnDefinitions)))) =
     length (filter (\<lambda>(columnName, attribute).
                       comment (normalizeChangeColumnAttribute env attribute) \<noteq> None)
                    columnDefinitions)"
proof
  show "filter (prefix ''COMMENT ON COLUMN '')
     (concat (rev (map (statements_before env table)
                       (map (\<lambda>(columnName, attribute).
                               (columnName, normalizeChangeColumnAttribute env attribute))
                            columnDefinitions)))) = []"
    by (rule comment_statements_before)
next
  have "length (filter (prefix ''COMMENT ON COLUMN '')
        (concat (map (statements_after env table)
                     (map (\<lambda>(columnName, attribute).
                             (columnName, normalizeChangeColumnAttribute env attribute))
                          columnDefinitions)))) =
        length (filter (\<lambda>entry. comment (snd entry) \<noteq> None)
                  (map (\<lambda>(columnName, attribute).
                          (columnName, normalizeChangeColumnAttribute env attribute))
                       columnDefinitions))"
    by (rule comment_statements_after)
  also have "\<dots> =
        length (filter (\<lambda>(columnName, attribute).
                          comment (normalizeChangeColumnAttribute env attribute) \<noteq> None)
                       columnDefinitions)"
    by (induction columnDefinitions) auto
  finally show "length (filter (prefix ''COMMENT ON COLUMN '')
        (concat (map (statements_after env table)
                     (map (\<lambda>(columnName, attribute).
                             (columnName, normalizeChangeColumnAttribute env attribute))
                          columnDefinitions)))) =
     length (filter (\<lambda>(columnName, attribute).
                       comment (normalizeChangeColumnAttribute env attribute) \<noteq> None)
                    columnDefinitions)" .
qed

text \<open>
  Claim C10 has a column definition whose \<^verbatim>\<open>comment\<close> key holds \<^verbatim>\<open>null\<close> produce
  \<^verbatim>\<open>COMMENT ON COLUMN ... IS NULL\<close> and one with no \<^verbatim>\<open>comment\<close> key produce no comment
  statement, two distinct behaviours of \<^verbatim>\<open>changeColumnsQuery\<close>. In the batches that are
  built the two lemmas above have it so. On a column whose new type is an array of enum
  the code does otherwise: with the key holding \<^verbatim>\<open>null\<close> and with no key alike, the call
  throws the \<^verbatim>\<open>TypeError\<close> of \<^verbatim>\<open>createEnumQuery\<close>, and no comment statement is returned.
\<close>

theorem changeColumnsQuery_comment_key_array_of_enum:
  "changeColumnsQuery example_dialect (TableName ''users'')
     [(''roles'', \<lparr>dataType = Some (ARRAY ''enum_users_roles[]'' (ENUM ''enum_users_roles'' [''admin'', ''member''])),
                  comment = Some None, autoIncrement = None\<rparr>)] =
     Inl (TypeError ''createEnumQuery expects an instance of the ENUM DataType'')
   \<and> changeColumnsQuery example_dialect (TableName ''users'')
     [(''roles'', \<lparr>dataType = Some (ARRAY ''enum_users_roles[]'' (ENUM ''enum_users_roles'' [''admin'', ''member''])),
                  comment = None, autoIncrement = None\<rparr>)] =
     Inl (TypeError ''createEnumQuery expects an instance of the ENUM DataType'')"
  by (simp add: changeColumnsQuery_def column_statements_def createEnumQuery_def truthy_def
                example_dialect_def)

section \<open>Fetching the database version\<close>

text \<open>
  Claim C5, as amended. \<^verbatim>\<open>fetchDatabaseVersionRaw\<close> runs the version query as a plain
  \<^verbatim>\<open>SELECT\<close>, whatever the caller's options say, and checks one thing: the call raises
  the assertion failure when the executor resolves to \<^verbatim>\<open>null\<close>, returns the row the
  executor resolves to otherwise, and passes on the error of an executor that rejects.
  It does not count rows: over an executor that resolves a plain query to the first
  row, no row is the assertion failure and one or more rows return the first.
\<close>

theorem fetchDatabaseVersionRaw_asserts_non_null:
  "query_type (select_plain_options opts) = Some SELECT
   \<and> plain (select_plain_options opts) = Some True
   \<and> (queryRaw version_query (select_plain_options opts) = Inr None \<longrightarrow>
        fetchDatabaseVersionRaw queryRaw version_query opts = Inl AssertionError)
   \<and> (queryRaw version_query (select_plain_options opts) = Inr (Some row) \<longrightarrow>
        fetchDatabaseVersionRaw queryRaw version_query opts = Inr row)
   \<and> (queryRaw version_query (select_plain_options opts) = Inl e \<longrightarrow>
        fetchDatabaseVersionRaw queryRaw version_query opts = Inl e)
   \<and> fetchDatabaseVersionRaw (first_row_executor []) version_query opts = Inl AssertionError
   \<and> fetchDatabaseVersionRaw (first_row_executor (r # rs)) version_query opts = Inr r"
  by (simp add: fetchDatabaseVersionRaw_def select_plain_options_def first_row_executor_def
           split: option.splits)

theorem fetchDatabaseVersionRaw_asserts_non_null_witness:
  "fetchDatabaseVersionRaw (first_row_executor ([] :: string list)) versionQuery None = Inl AssertionError
   \<and> fetchDatabaseVersionRaw (first_row_executor [''14.2'']) versionQuery
        (Some \<lparr>query_type = Some (OtherQueryType ''RAW''), plain = Some False\<rparr>) = Inr ''14.2''"
  using fetchDatabaseVersionRaw_asserts_non_null
          [where opts = None and queryRaw = "first_row_executor ([] :: string list)"
             and version_query = versionQuery and row = "''14.2''" and e = "Error []"
             and r = "''14.2''" and rs = "[]"]
        fetchDatabaseVersionRaw_asserts_non_null
          [where opts = "Some \<lparr>query_type = Some (OtherQueryType ''RAW''), plain = Some False\<rparr>"
             and queryRaw = "first_row_executor [''14.2'']"
             and version_query = versionQuery and row = "''14.2''" and e = "Error []"
             and r = "''14.2''" and rs = "[]"]
  by blast

text \<open>
  As first stated, the claim has an answer of more than one row raise the assertion
  failure. Over the executor that resolves a plain query to the first row, two rows
  return the first.
\<close>

theorem fetchDatabaseVersionRaw_two_rows_counterexample:
  "fetchDatabaseVersionRaw (first_row_executor [''14.2'', ''15.1'']) versionQuery None = Inr ''14.2''"
  by (simp add: fetchDatabaseVersionRaw_def first_row_executor_def)

end
